theory Spec2Isabelle
  imports Complex_Main "HOL-Library.AList" "HOL-Library.Multiset"
begin

section \<open>Python values, objects and the object store\<close>

text \<open>
  The chart builders of \<^verbatim>\<open>strawberryfields/plot.py\<close> work on Plot.ly JSON-format
  charts: nested Python dictionaries and lists that are mutated in place.  Dictionaries and
  lists are objects in a store and a value refers to them by address, so that aliasing and
  in-place mutation are visible.  Dictionary keys are strings (the charts are JSON-format),
  and a dictionary keeps its keys in insertion order.

  Python floats are modelled by the real numbers: arithmetic is exact, and rounding errors,
  infinities and NaN are outside the model.
\<close>

type_synonym addr = nat

datatype pyval =
    PNone
  | PBool bool
  | PInt int
  | PFloat real
  | PStr string
  | PRef addr

datatype pyobj =
    ODict "(string \<times> pyval) list"
  | OList "pyval list"

type_synonym heap = "pyobj list"

datatype pyerr = KeyError | IndexError | TypeError | AttributeError | SystemError

text \<open>
  A statement takes the store and returns either the exception it raised or its value,
  together with the store as it is at that point.
\<close>

type_synonym 'a py = "heap \<Rightarrow> (pyerr + 'a) \<times> heap"

definition py_return :: "'a \<Rightarrow> 'a py" where
  "py_return x h = (Inr x, h)"

definition py_raise :: "pyerr \<Rightarrow> 'a py" where
  "py_raise e h = (Inl e, h)"

definition py_bind :: "'a py \<Rightarrow> ('a \<Rightarrow> 'b py) \<Rightarrow> 'b py" where
  "py_bind m f h = (case m h of (Inl e, h') \<Rightarrow> (Inl e, h') | (Inr x, h') \<Rightarrow> f x h')"

definition py_then :: "unit py \<Rightarrow> 'b py \<Rightarrow> 'b py" where
  "py_then m k = py_bind m (\<lambda>_. k)"

subsection \<open>Indexing\<close>

text \<open>Python sequence indexing: a negative index counts from the end.\<close>

definition py_index :: "'a list \<Rightarrow> int \<Rightarrow> 'a option" where
  "py_index xs i =
     (if 0 \<le> i \<and> i < int (length xs) then Some (xs ! nat i)
      else if - int (length xs) \<le> i \<and> i < 0 then Some (xs ! nat (int (length xs) + i))
      else None)"

definition seq_getitem :: "'a list \<Rightarrow> int \<Rightarrow> 'a py" where
  "seq_getitem xs i = (case py_index xs i of None \<Rightarrow> py_raise IndexError | Some x \<Rightarrow> py_return x)"

subsection \<open>Object creation\<close>

definition new_obj :: "pyobj \<Rightarrow> pyval py" where
  "new_obj ob h = (Inr (PRef (length h)), h @ [ob])"

definition new_dict :: "(string \<times> pyval) list \<Rightarrow> pyval py" where
  "new_dict kvs = new_obj (ODict kvs)"

definition new_list :: "pyval list \<Rightarrow> pyval py" where
  "new_list xs = new_obj (OList xs)"

text \<open>\<^verbatim>\<open>[f(x) for x in xs]\<close>: the elements are created from left to right.\<close>

fun py_map :: "('a \<Rightarrow> pyval py) \<Rightarrow> 'a list \<Rightarrow> pyval list py" where
  "py_map f [] = py_return []"
| "py_map f (x # xs) = py_bind (f x) (\<lambda>v. py_bind (py_map f xs) (\<lambda>vs. py_return (v # vs)))"

text \<open>\<^verbatim>\<open>a.tolist()\<close> of a one- and of a two-dimensional numpy array.\<close>

definition tolist :: "real list \<Rightarrow> pyval py" where
  "tolist xs = new_list (map PFloat xs)"

definition tolist2 :: "real list list \<Rightarrow> pyval py" where
  "tolist2 rows = py_bind (py_map tolist rows) new_list"

subsection \<open>Subscription, item assignment, append and copy\<close>

text \<open>\<^verbatim>\<open>v[k]\<close> for a string \<open>k\<close>.\<close>

definition getitem :: "pyval \<Rightarrow> string \<Rightarrow> pyval py" where
  "getitem v k h =
     (case v of
        PRef a \<Rightarrow>
          (if a < length h then
             (case h ! a of
                ODict kvs \<Rightarrow> (case map_of kvs k of None \<Rightarrow> (Inl KeyError, h) | Some x \<Rightarrow> (Inr x, h))
              | OList xs \<Rightarrow> (Inl TypeError, h))
           else (Inl SystemError, h))
      | _ \<Rightarrow> (Inl TypeError, h))"

text \<open>\<^verbatim>\<open>v[i]\<close> for an integer \<open>i\<close>.\<close>

definition getitem_int :: "pyval \<Rightarrow> int \<Rightarrow> pyval py" where
  "getitem_int v i h =
     (case v of
        PRef a \<Rightarrow>
          (if a < length h then
             (case h ! a of
                ODict kvs \<Rightarrow> (Inl KeyError, h)
              | OList xs \<Rightarrow> seq_getitem xs i h)
           else (Inl SystemError, h))
      | PStr s \<Rightarrow> (case py_index s i of None \<Rightarrow> (Inl IndexError, h) | Some c \<Rightarrow> (Inr (PStr [c]), h))
      | _ \<Rightarrow> (Inl TypeError, h))"

text \<open>\<^verbatim>\<open>v[k] = x\<close> for a string \<open>k\<close>.\<close>

definition setitem :: "pyval \<Rightarrow> string \<Rightarrow> pyval \<Rightarrow> unit py" where
  "setitem v k x h =
     (case v of
        PRef a \<Rightarrow>
          (if a < length h then
             (case h ! a of
                ODict kvs \<Rightarrow> (Inr (), h[a := ODict (AList.update k x kvs)])
              | OList xs \<Rightarrow> (Inl TypeError, h))
           else (Inl SystemError, h))
      | _ \<Rightarrow> (Inl TypeError, h))"




subsection \<open>Reading a chart\<close>

text \<open>
  The theorems read the store along a path of keys and positions, as
  \<^verbatim>\<open>chart['data'][0]['y']\<close> does.
\<close>

datatype key = K string | I nat

definition dict_at :: "heap \<Rightarrow> addr \<Rightarrow> string \<Rightarrow> pyval option" where
  "dict_at h a k =
     (if a < length h then (case h ! a of ODict kvs \<Rightarrow> map_of kvs k | OList xs \<Rightarrow> None) else None)"

definition list_at :: "heap \<Rightarrow> addr \<Rightarrow> pyval list option" where
  "list_at h a =
     (if a < length h then (case h ! a of ODict kvs \<Rightarrow> None | OList xs \<Rightarrow> Some xs) else None)"

fun follow :: "heap \<Rightarrow> pyval \<Rightarrow> key list \<Rightarrow> pyval option" where
  "follow h v [] = Some v"
| "follow h (PRef a) (K k # ks) =
     (case dict_at h a k of None \<Rightarrow> None | Some v \<Rightarrow> follow h v ks)"
| "follow h (PRef a) (I i # ks) =
     (case list_at h a of
        None \<Rightarrow> None
      | Some xs \<Rightarrow> (if i < length xs then follow h (xs ! i) ks else None))"
| "follow h v (k # ks) = None"

text \<open>The items of the list found at the end of a path.\<close>

definition items_at :: "heap \<Rightarrow> pyval \<Rightarrow> key list \<Rightarrow> pyval list option" where
  "items_at h v p =
     (case follow h v p of Some (PRef a) \<Rightarrow> list_at h a | _ \<Rightarrow> None)"

text \<open>The items of a list of lists found at the end of a path.\<close>

fun rows_of :: "heap \<Rightarrow> pyval list \<Rightarrow> pyval list list option" where
  "rows_of h [] = Some []"
| "rows_of h (PRef a # vs) =
     (case list_at h a of
        None \<Rightarrow> None
      | Some r \<Rightarrow> (case rows_of h vs of None \<Rightarrow> None | Some rs \<Rightarrow> Some (r # rs)))"
| "rows_of h (v # vs) = None"

definition rows_at :: "heap \<Rightarrow> pyval \<Rightarrow> key list \<Rightarrow> pyval list list option" where
  "rows_at h v p = (case items_at h v p of None \<Rightarrow> None | Some vs \<Rightarrow> rows_of h vs)"

section \<open>The surface chart of the Wigner function\<close>

definition textcolor :: string where
  "textcolor = ''#787878''"

text \<open>The skeleton dictionary that \<^verbatim>\<open>generate_wigner_chart\<close> starts from.\<close>

definition wigner_skeleton :: "pyval py" where
  "wigner_skeleton =
     py_bind (new_list []) (\<lambda>colorscale.
     py_bind (new_list []) (\<lambda>x.
     py_bind (new_list []) (\<lambda>y.
     py_bind (new_list []) (\<lambda>z.
     py_bind (new_dict []) (\<lambda>cz.
     py_bind (new_dict [(''z'', cz)]) (\<lambda>contours.
     py_bind (new_dict [(''type'', PStr ''surface''), (''colorscale'', colorscale),
                        (''x'', x), (''y'', y), (''z'', z), (''contours'', contours)]) (\<lambda>trace.
     py_bind (new_list [trace]) (\<lambda>data.
     py_bind (new_dict []) (\<lambda>xaxis.
     py_bind (new_dict []) (\<lambda>yaxis.
     py_bind (new_dict []) (\<lambda>zaxis.
     py_bind (new_dict [(''xaxis'', xaxis), (''yaxis'', yaxis), (''zaxis'', zaxis)]) (\<lambda>scene.
     py_bind (new_dict [(''scene'', scene)]) (\<lambda>layout.
     new_dict [(''data'', data), (''layout'', layout)])))))))))))))"

text \<open>\<^verbatim>\<open>chart['data'][idx][k] = v\<close>\<close>

definition set_trace :: "pyval \<Rightarrow> nat \<Rightarrow> string \<Rightarrow> pyval \<Rightarrow> unit py" where
  "set_trace chart idx k v =
     py_bind (getitem chart ''data'') (\<lambda>d.
     py_bind (getitem_int d (int idx)) (\<lambda>t. setitem t k v))"

text \<open>\<^verbatim>\<open>chart["layout"][k] = v\<close>\<close>

definition set_layout :: "pyval \<Rightarrow> string \<Rightarrow> pyval \<Rightarrow> unit py" where
  "set_layout chart k v = py_bind (getitem chart ''layout'') (\<lambda>l. setitem l k v)"

text \<open>\<^verbatim>\<open>chart["layout"]["scene"][k] = v\<close>\<close>

definition set_scene :: "pyval \<Rightarrow> string \<Rightarrow> pyval \<Rightarrow> unit py" where
  "set_scene chart k v =
     py_bind (getitem chart ''layout'') (\<lambda>l.
     py_bind (getitem l ''scene'') (\<lambda>s. setitem s k v))"

text \<open>\<^verbatim>\<open>chart["layout"]["scene"][ax][k] = v\<close>\<close>

definition set_scene_axis :: "pyval \<Rightarrow> string \<Rightarrow> string \<Rightarrow> pyval \<Rightarrow> unit py" where
  "set_scene_axis chart ax k v =
     py_bind (getitem chart ''layout'') (\<lambda>l.
     py_bind (getitem l ''scene'') (\<lambda>s.
     py_bind (getitem s ax) (\<lambda>a. setitem a k v)))"

text \<open>The literal colour scale: five two-element lists in a list.\<close>

definition wigner_colorscale :: "pyval py" where
  "wigner_colorscale =
     py_bind (py_map new_list
        [[PFloat 0.0, PStr ''purple''],
         [PFloat 0.25, PStr ''red''],
         [PFloat 0.5, PStr ''yellow''],
         [PFloat 0.75, PStr ''green''],
         [PFloat 1.0, PStr ''blue'']]) new_list"

definition generate_wigner_chart ::
  "real list list \<Rightarrow> real list \<Rightarrow> real list \<Rightarrow> bool \<Rightarrow> pyval py" where
  "generate_wigner_chart data xvec pvec contours =
     py_bind wigner_skeleton (\<lambda>chart.
     py_then (set_trace chart 0 ''type'' (PStr ''surface''))
    (py_bind wigner_colorscale (\<lambda>cs.
     py_then (set_trace chart 0 ''colorscale'' cs)
    (py_bind (tolist xvec) (\<lambda>x.
     py_then (set_trace chart 0 ''x'' x)
    (py_bind (tolist pvec) (\<lambda>y.
     py_then (set_trace chart 0 ''y'' y)
    (py_bind (tolist2 data) (\<lambda>z.
     py_then (set_trace chart 0 ''z'' z)
    (py_then
       (py_bind (getitem chart ''data'') (\<lambda>d.
        py_bind (getitem_int d 0) (\<lambda>t.
        py_bind (getitem t ''contours'') (\<lambda>c.
        py_bind (getitem c ''z'') (\<lambda>cz. setitem cz ''show'' (PBool contours))))))
    (py_then (set_trace chart 0 ''cmin'' (PFloat (- 1 / pi)))
    (py_then (set_trace chart 0 ''cmax'' (PFloat (1 / pi)))
    (py_then (set_layout chart ''paper_bgcolor'' (PStr ''white''))
    (py_then (set_layout chart ''plot_bgcolor'' (PStr ''white''))
    (py_bind (new_dict [(''color'', PStr textcolor)]) (\<lambda>font.
     py_then (set_layout chart ''font'' font)
    (py_then (set_scene chart ''bgcolor'' (PStr ''white''))
    (py_then (set_scene_axis chart ''xaxis'' ''title'' (PStr ''x''))
    (py_then (set_scene_axis chart ''xaxis'' ''color'' (PStr textcolor))
    (py_then (set_scene_axis chart ''yaxis'' ''title'' (PStr ''p''))
    (py_then (set_scene_axis chart ''yaxis'' ''color'' (PStr textcolor))
    (py_then (set_scene_axis chart ''yaxis'' ''gridcolor'' (PStr textcolor))
    (py_then (set_scene_axis chart ''zaxis'' ''title'' (PStr ''W(x,p)''))
    (py_return chart))))))))))))))))))))))))"

section \<open>The bar charts of the Fock state probabilities\<close>

subsection \<open>String formatting\<close>







subsection \<open>The builder\<close>









subsection \<open>The default bar chart\<close>


section \<open>Loading the renderer\<close>

definition plotly_error :: string where
  "plotly_error =
     ''Plot.ly required for using this function. It can be installed using pip install '' @
     ''plotly or visiting https://plot.ly/python/getting-started/#installation''"

text \<open>
  The operand of a \<^verbatim>\<open>raise\<close> statement is an exception (its class and message) or some
  other value.  Python 3 raises only exceptions: for any other operand the statement raises
  a \<^verbatim>\<open>TypeError\<close> of its own.
\<close>

datatype raise_operand = Exception pyerr string | Other pyval

definition raise_stmt :: "raise_operand \<Rightarrow> pyerr \<times> string" where
  "raise_stmt operand =
     (case operand of
        Exception cls msg \<Rightarrow> (cls, msg)
      | Other v \<Rightarrow> (TypeError, ''exceptions must derive from BaseException''))"

text \<open>
  \<^verbatim>\<open>_get_plotly\<close>: the import succeeds when Plot.ly is installed; otherwise the handler of
  the \<^verbatim>\<open>ImportError\<close> executes \<^verbatim>\<open>raise (plotly_error) from e\<close>, whose operand is a string.
\<close>

definition get_plotly :: "bool \<Rightarrow> (pyerr \<times> string) + unit" where
  "get_plotly plotly_installed =
     (if plotly_installed then Inr () else Inl (raise_stmt (Other (PStr plotly_error))))"

section \<open>Running the primitives\<close>

lemma new_list_run: "new_list xs h = (Inr (PRef (length h)), h @ [OList xs])"
  by (simp add: new_list_def new_obj_def)

lemma new_dict_run: "new_dict kvs h = (Inr (PRef (length h)), h @ [ODict kvs])"
  by (simp add: new_dict_def new_obj_def)

lemma tolist_run: "tolist r h = (Inr (PRef (length h)), h @ [OList (map PFloat r)])"
  by (simp add: tolist_def new_list_run)

text \<open>A comprehension whose element expression creates one object per element.\<close>

lemma py_map_new_obj:
  assumes f: "\<And>r h. f r h = (Inr (PRef (length h)), h @ [g r])"
  shows "py_map f rows h = (Inr (map PRef [length h ..< length h + length rows]), h @ map g rows)"
proof (induction rows arbitrary: h)
  case Nil
  then show ?case by (simp add: py_return_def)
next
  case (Cons r rows)
  have ih: "py_map f rows (h @ [g r]) =
      (Inr (map PRef [Suc (length h) ..< Suc (length h) + length rows]), (h @ [g r]) @ map g rows)"
    using Cons.IH [of "h @ [g r]"] by simp
  have "py_map f (r # rows) h =
      (case f r h of (Inl e, h') \<Rightarrow> (Inl e, h')
       | (Inr v, h') \<Rightarrow> (case py_map f rows h' of (Inl e, h'') \<Rightarrow> (Inl e, h'')
                            | (Inr vs, h'') \<Rightarrow> (Inr (v # vs), h'')))"
    by (simp add: py_bind_def py_return_def split: prod.splits sum.splits)
  also have "\<dots> = (Inr (PRef (length h) # map PRef [Suc (length h) ..< Suc (length h) + length rows]),
      (h @ [g r]) @ map g rows)"
  proof -
    have step: "f r h = (Inr (PRef (length h)), h @ [g r])" by (rule f)
    show ?thesis by (simp add: step ih)
  qed
  also have "\<dots> = (Inr (map PRef [length h ..< length h + length (r # rows)]), h @ map g (r # rows))"
    by (simp add: upt_conv_Cons del: upt_Suc)
  finally show ?case .
qed

lemma tolist2_run:
  "tolist2 rows h =
     (Inr (PRef (length h + length rows)),
      h @ map (\<lambda>r. OList (map PFloat r)) rows @
          [OList (map PRef [length h ..< length h + length rows])])"
  by (simp add: tolist2_def py_bind_def
      py_map_new_obj [where g = "\<lambda>r. OList (map PFloat r)", OF tolist_run] new_list_run)

section \<open>The surface chart: colour scale and contours\<close>

lemma colorscale_run:
  "wigner_colorscale h =
     (Inr (PRef (length h + 5)),
      h @ [OList [PFloat 0, PStr ''purple''], OList [PFloat 0.25, PStr ''red''],
           OList [PFloat 0.5, PStr ''yellow''], OList [PFloat 0.75, PStr ''green''],
           OList [PFloat 1, PStr ''blue''],
           OList [PRef (length h), PRef (length h + 1), PRef (length h + 2),
                  PRef (length h + 3), PRef (length h + 4)]])"
  by (simp add: wigner_colorscale_def py_bind_def py_map_new_obj [where g = OList, OF new_list_run]
      new_list_run eval_nat_numeral upt_conv_Cons del: py_map.simps upt_Suc)

text \<open>
  The builder never fails, and the store it leaves is the old one followed by the objects
  of the chart: the skeleton (its four empty lists are no longer referred to), the colour
  scale, the three data lists and the font dictionary.
\<close>

lemma gwc_run:
  "generate_wigner_chart d x p b h =
     (Inr (PRef (length h + 13)),
      h @ [OList [], OList [], OList [], OList [],
           ODict [(''show'', PBool b)],
           ODict [(''z'', PRef (length h + 4))],
           ODict [(''type'', PStr ''surface''), (''colorscale'', PRef (length h + 19)),
                  (''x'', PRef (length h + 20)), (''y'', PRef (length h + 21)),
                  (''z'', PRef (length h + 22 + length d)), (''contours'', PRef (length h + 5)),
                  (''cmin'', PFloat (- 1 / pi)), (''cmax'', PFloat (1 / pi))],
           OList [PRef (length h + 6)],
           ODict [(''title'', PStr ''x''), (''color'', PStr ''#787878'')],
           ODict [(''title'', PStr ''p''), (''color'', PStr ''#787878''),
                  (''gridcolor'', PStr ''#787878'')],
           ODict [(''title'', PStr ''W(x,p)'')],
           ODict [(''xaxis'', PRef (length h + 8)), (''yaxis'', PRef (length h + 9)),
                  (''zaxis'', PRef (length h + 10)), (''bgcolor'', PStr ''white'')],
           ODict [(''scene'', PRef (length h + 11)), (''paper_bgcolor'', PStr ''white''),
                  (''plot_bgcolor'', PStr ''white''), (''font'', PRef (length h + 23 + length d))],
           ODict [(''data'', PRef (length h + 7)), (''layout'', PRef (length h + 12))],
           OList [PFloat 0, PStr ''purple''],
           OList [PFloat 0.25, PStr ''red''],
           OList [PFloat 0.5, PStr ''yellow''],
           OList [PFloat 0.75, PStr ''green''],
           OList [PFloat 1, PStr ''blue''],
           OList [PRef (length h + 14), PRef (length h + 15), PRef (length h + 16),
                  PRef (length h + 17), PRef (length h + 18)],
           OList (map PFloat x),
           OList (map PFloat p)]
        @ map (\<lambda>r. OList (map PFloat r)) d
        @ [OList (map PRef [length h + 22 ..< length h + 22 + length d]),
           ODict [(''color'', PStr ''#787878'')]])"
  by (simp add: generate_wigner_chart_def wigner_skeleton_def py_bind_def py_then_def
      py_return_def new_list_def new_dict_def new_obj_def set_trace_def getitem_def
      getitem_int_def setitem_def nth_append seq_getitem_def py_index_def colorscale_run
      tolist_run tolist2_run set_layout_def set_scene_def set_scene_axis_def
      list_update_append textcolor_def eval_nat_numeral del: upt_Suc)

text \<open>
  C6: whatever the field, the axes and the contours flag, the chart has exactly one trace,
  of type surface; its colour scale is the five stops 0, 0.25, 0.5, 0.75, 1 with the colours
  purple, red, yellow, green, blue in this order, and its colour range is from \<open>-1/\<pi>\<close>
  to \<open>1/\<pi>\<close>.
\<close>

theorem wigner_colorscale_fixed:
  "\<exists>c h'. generate_wigner_chart d x p b h = (Inr c, h')
     \<and> map_option length (items_at h' c [K ''data'']) = Some 1
     \<and> follow h' c [K ''data'', I 0, K ''type''] = Some (PStr ''surface'')
     \<and> rows_at h' c [K ''data'', I 0, K ''colorscale''] =
         Some [[PFloat 0.0, PStr ''purple''], [PFloat 0.25, PStr ''red''],
               [PFloat 0.5, PStr ''yellow''], [PFloat 0.75, PStr ''green''],
               [PFloat 1.0, PStr ''blue'']]
     \<and> follow h' c [K ''data'', I 0, K ''cmin''] = Some (PFloat (- 1 / pi))
     \<and> follow h' c [K ''data'', I 0, K ''cmax''] = Some (PFloat (1 / pi))"
  by (simp add: gwc_run items_at_def rows_at_def dict_at_def list_at_def nth_append
      eval_nat_numeral del: upt_Suc)

text \<open>
  C7: for the same field and axes, the chart built with contours and the chart built
  without are the same reference into stores that are equal except for one object, the
  dictionary \<^verbatim>\<open>chart["data"][0]["contours"]["z"]\<close>, which holds the flag \<^verbatim>\<open>show\<close> and
  nothing else.
\<close>

theorem wigner_contours_only_flag:
  "\<exists>c h1 h2 z. generate_wigner_chart d x p True h = (Inr c, h1)
     \<and> generate_wigner_chart d x p False h = (Inr c, h2)
     \<and> follow h1 c [K ''data'', I 0, K ''contours'', K ''z''] = Some (PRef z)
     \<and> z < length h1
     \<and> h1 ! z = ODict [(''show'', PBool True)]
     \<and> h2 = h1[z := ODict [(''show'', PBool False)]]"
  by (simp add: gwc_run dict_at_def list_at_def nth_append list_update_append
      eval_nat_numeral del: upt_Suc)

section \<open>The bar charts: the order of the modes\<close>




section \<open>Loading the renderer: the exception raised\<close>

text \<open>
  C9: without Plot.ly, \<^verbatim>\<open>_get_plotly\<close> raises a \<^verbatim>\<open>TypeError\<close> whose message is Python's
  own and not the text of \<^verbatim>\<open>plotly_error\<close>.
\<close>

theorem get_plotly_raises_type_error:
  "get_plotly False = Inl (TypeError, ''exceptions must derive from BaseException'')
   \<and> snd (raise_stmt (Other (PStr plotly_error))) \<noteq> plotly_error"
  by (simp add: get_plotly_def raise_stmt_def plotly_error_def)

end
